theory Spec2Isabelle
  imports Main "HOL-Library.Sublist"
begin

section \<open>JavaScript strings and values\<close>

text \<open>
  A JavaScript string is modelled as a \<^typ>\<open>string\<close>: the list of its code units, each
  below 256 (the ISO-8859-1 range, which contains every character of the generator's
  lexicon and templates). The helpers below are the parts of the String and Array
  prototypes that the generator calls, restricted to that range. A value that may also be
  \<^verbatim>\<open>undefined\<close> or \<^verbatim>\<open>null\<close> is a \<open>jsval\<close>; calling a string method on such a
  value raises a \<^verbatim>\<open>TypeError\<close>.
\<close>

datatype jsval = JSUndefined | JSNull | JSString string

datatype error = TypeError

definition code :: "char \<Rightarrow> int" where
  "code c = of_char c"

definition nl :: string where
  "nl = [CHR 0x0A]"

definition sq :: string where
  "sq = [CHR 0x27]"

text \<open>\<^verbatim>\<open>\w\<close> of a regular expression without the unicode flag: \<^verbatim>\<open>[A-Za-z0-9_]\<close>.\<close>

definition isWordChar :: "char \<Rightarrow> bool" where
  "isWordChar c =
     ((65 \<le> code c \<and> code c \<le> 90) \<or> (97 \<le> code c \<and> code c \<le> 122)
      \<or> (48 \<le> code c \<and> code c \<le> 57) \<or> code c = 95)"

text \<open>\<^verbatim>\<open>\s\<close> (white space and line terminators) and the line terminators, which
  \<^verbatim>\<open>.\<close> does not match, within the modelled range.\<close>

definition isSpace :: "char \<Rightarrow> bool" where
  "isSpace c = ((9 \<le> code c \<and> code c \<le> 13) \<or> code c = 32 \<or> code c = 160)"

definition isLineTerminator :: "char \<Rightarrow> bool" where
  "isLineTerminator c = (code c = 10 \<or> code c = 13)"

text \<open>\<^verbatim>\<open>String.prototype.toLowerCase\<close>, one code unit at a time: A-Z and the
  upper-case letters of the range 192..222 (the multiplication sign 215 apart) move up
  by 32.\<close>

definition toLowerChar :: "char \<Rightarrow> char" where
  "toLowerChar c =
     (if (65 \<le> code c \<and> code c \<le> 90) \<or> (192 \<le> code c \<and> code c \<le> 222 \<and> code c \<noteq> 215)
      then char_of (code c + 32) else c)"

definition toLowerCase :: "string \<Rightarrow> string" where
  "toLowerCase s = map toLowerChar s"

text \<open>\<^verbatim>\<open>String.prototype.toUpperCase\<close> on a one-character string. The result is a
  string: the sharp s (223) becomes \<^verbatim>\<open>SS\<close>. The upper-case forms of the code units 181
  and 255 lie outside the modelled range; they are left as they are.\<close>

definition toUpperCase1 :: "char \<Rightarrow> string" where
  "toUpperCase1 c =
     (if (97 \<le> code c \<and> code c \<le> 122) \<or> (224 \<le> code c \<and> code c \<le> 254 \<and> code c \<noteq> 247)
      then [char_of (code c - 32)]
      else if code c = 223 then ''SS'' else [c])"

text \<open>\<^verbatim>\<open>s.endsWith(t)\<close>, \<^verbatim>\<open>s.slice(0, -1)\<close>, \<^verbatim>\<open>s.trim()\<close>, \<^verbatim>\<open>s.includes(t)\<close>,
  \<^verbatim>\<open>xs.join(sep)\<close>, \<^verbatim>\<open>s.lastIndexOf(c)\<close> and \<^verbatim>\<open>s.substring(0, k)\<close>.\<close>

definition endsWith :: "string \<Rightarrow> string \<Rightarrow> bool" where
  "endsWith s t = suffix t s"

definition sliceDropLast :: "string \<Rightarrow> string" where
  "sliceDropLast s = take (length s - 1) s"

definition trim :: "string \<Rightarrow> string" where
  "trim s = rev (dropWhile isSpace (rev (dropWhile isSpace s)))"

fun js_includes :: "string \<Rightarrow> string \<Rightarrow> bool" where
  "js_includes [] t = (t = [])"
| "js_includes (c # cs) t = (prefix t (c # cs) \<or> js_includes cs t)"

fun join :: "string \<Rightarrow> string list \<Rightarrow> string" where
  "join sep [] = []"
| "join sep [x] = x"
| "join sep (x # y # ys) = x @ sep @ join sep (y # ys)"

definition lastIndexOf :: "string \<Rightarrow> char \<Rightarrow> int" where
  "lastIndexOf s c =
     (if c \<in> set s then int (length s) - 1 - int (length (takeWhile (\<lambda>x. x \<noteq> c) (rev s)))
      else - 1)"

definition substring0 :: "string \<Rightarrow> int \<Rightarrow> string" where
  "substring0 s k = take (nat (max 0 k)) s"

text \<open>\<^verbatim>\<open>a || b\<close> on strings that may be undefined: the empty string is falsy.\<close>

definition orElse :: "string option \<Rightarrow> string \<Rightarrow> string" where
  "orElse a b = (case a of None \<Rightarrow> b | Some s \<Rightarrow> if s = [] then b else s)"

section \<open>Lexical inflector\<close>

text \<open>
  \<^verbatim>\<open>function capitalize(str) { return str.charAt(0).toUpperCase() + str.slice(1); }\<close>
\<close>

fun capitalize :: "string \<Rightarrow> string" where
  "capitalize [] = []"
| "capitalize (c # cs) = toUpperCase1 c @ cs"

text \<open>
  \<^verbatim>\<open>function pluralize(entity) {
    if (entity.endsWith('y')) { return entity.slice(0, -1) + 'ies'; }
    else if (entity.endsWith('s')) { return entity; }
    else { return entity + 's'; } }\<close>
\<close>

definition pluralize :: "string \<Rightarrow> string" where
  "pluralize entity =
     (if endsWith entity ''y'' then sliceDropLast entity @ ''ies''
      else if endsWith entity ''s'' then entity
      else entity @ ''s'')"

section \<open>Entity extractor\<close>

subsection \<open>The keyword patterns\<close>

text \<open>
  Every pattern the extractor builds has one of two shapes,
  \<^verbatim>\<open>new RegExp(`\\b${base}(?:y|ies)\\b`, 'i')\<close> and \<^verbatim>\<open>new RegExp(`\\b${keyword}s?\\b`, 'i')\<close>:
  a word boundary, a literal stem, one of several literal endings (\<^verbatim>\<open>s?\<close> is the ending
  \<^verbatim>\<open>s\<close> or the empty ending) and a word boundary. \<open>keywordRegExp\<close> holds the stem and the
  endings; \<open>test\<close> is \<^verbatim>\<open>RegExp.prototype.test\<close> for such a pattern: a search for a match
  at any start position.

  Under the \<^verbatim>\<open>i\<close> flag two code units match when their canonical forms coincide; the
  canonical form of a code unit is that of its upper-case letter.
\<close>

definition canonicalize :: "char \<Rightarrow> int" where
  "canonicalize c =
     (if (97 \<le> code c \<and> code c \<le> 122) \<or> (224 \<le> code c \<and> code c \<le> 254 \<and> code c \<noteq> 247)
      then code c - 32 else code c)"

text \<open>Matching a literal at the head of the input gives the rest of the input and
  the last code unit consumed before it (\<open>prev\<close> when the literal is empty).\<close>

fun matchLiteral :: "string \<Rightarrow> char option \<Rightarrow> string \<Rightarrow> (char option \<times> string) option" where
  "matchLiteral [] prev s = Some (prev, s)"
| "matchLiteral (p # ps) prev [] = None"
| "matchLiteral (p # ps) prev (c # cs) =
     (if canonicalize p = canonicalize c then matchLiteral ps (Some c) cs else None)"

text \<open>\<^verbatim>\<open>\b\<close>: exactly one of the code units before and after the position is a word
  character; the start and the end of the input count as non-word.\<close>

definition wordBefore :: "char option \<Rightarrow> bool" where
  "wordBefore prev = (case prev of None \<Rightarrow> False | Some c \<Rightarrow> isWordChar c)"

definition wordAfter :: "string \<Rightarrow> bool" where
  "wordAfter s = (case s of [] \<Rightarrow> False | c # cs \<Rightarrow> isWordChar c)"

definition atWordBoundary :: "char option \<Rightarrow> string \<Rightarrow> bool" where
  "atWordBoundary prev s = (wordBefore prev \<noteq> wordAfter s)"

record keywordRegExp =
  stem :: string
  endings :: "string list"

definition matchEnding :: "char option \<Rightarrow> string \<Rightarrow> string \<Rightarrow> bool" where
  "matchEnding prev s ending =
     (case matchLiteral ending prev s of
        None \<Rightarrow> False
      | Some (prev', s') \<Rightarrow> atWordBoundary prev' s')"

definition matchHere :: "keywordRegExp \<Rightarrow> char option \<Rightarrow> string \<Rightarrow> bool" where
  "matchHere re prev s =
     (case matchLiteral (stem re) prev s of
        None \<Rightarrow> False
      | Some (prev', s') \<Rightarrow>
          atWordBoundary prev s \<and> list_ex (matchEnding prev' s') (endings re))"

fun searchFrom :: "keywordRegExp \<Rightarrow> char option \<Rightarrow> string \<Rightarrow> bool" where
  "searchFrom re prev [] = matchHere re prev []"
| "searchFrom re prev (c # cs) = (matchHere re prev (c # cs) \<or> searchFrom re (Some c) cs)"

definition test :: "keywordRegExp \<Rightarrow> string \<Rightarrow> bool" where
  "test re s = searchFrom re None s"

definition keywordPattern :: "string \<Rightarrow> keywordRegExp" where
  "keywordPattern keyword =
     (if endsWith keyword ''y''
      then \<lparr>stem = sliceDropLast keyword, endings = [''y'', ''ies'']\<rparr>
      else \<lparr>stem = keyword, endings = [''s'', '''']\<rparr>)"

subsection \<open>The lexicon and the scan\<close>

text \<open>\<^verbatim>\<open>Object.entries\<close> lists the keys of the lexicon in the order they are written.\<close>

definition entityKeywords :: "(string \<times> string list) list" where
  "entityKeywords =
    [(''user'', [''user'', ''account'', ''profile'', ''member'']),
     (''product'', [''product'', ''item'', ''goods'', ''merchandise'']),
     (''order'', [''order'', ''purchase'', ''transaction'']),
     (''post'', [''post'', ''article'', ''blog'']),
     (''comment'', [''comment'', ''review'', ''feedback'']),
     (''task'', [''task'', ''todo'', ''assignment'', ''job'']),
     (''project'', [''project'', ''workspace'']),
     (''customer'', [''customer'', ''client'']),
     (''invoice'', [''invoice'', ''bill'', ''receipt'']),
     (''payment'', [''payment'', ''transaction'']),
     (''booking'', [''booking'', ''reservation'', ''appointment'']),
     (''event'', [''event'', ''meeting'', ''conference'']),
     (''category'', [''category'', ''tag'', ''label'']),
     (''message'', [''message'', ''chat'', ''conversation'']),
     (''notification'', [''notification'', ''alert'']),
     (''report'', [''report'', ''analytics'', ''statistics'']),
     (''document'', [''document'', ''file'', ''attachment'']),
     (''inventory'', [''inventory'', ''stock'', ''warehouse'']),
     (''employee'', [''employee'', ''staff'', ''worker'']),
     (''department'', [''department'', ''division'', ''team''])]"

text \<open>The inner loop over the keywords of one entity: the first keyword whose pattern
  matches records the entity (unless it is recorded already) and ends the loop.\<close>

fun scanKeywords :: "string \<Rightarrow> string list \<Rightarrow> string \<Rightarrow> string list \<Rightarrow> string list" where
  "scanKeywords entityName [] descriptionLower entities = entities"
| "scanKeywords entityName (keyword # keywords) descriptionLower entities =
     (if test (keywordPattern keyword) descriptionLower
      then (if entityName \<notin> set entities then entities @ [entityName] else entities)
      else scanKeywords entityName keywords descriptionLower entities)"

text \<open>The outer loop over the entries of the lexicon.\<close>

fun scanEntities :: "(string \<times> string list) list \<Rightarrow> string \<Rightarrow> string list \<Rightarrow> string list" where
  "scanEntities [] descriptionLower entities = entities"
| "scanEntities ((entityName, keywords) # rest) descriptionLower entities =
     scanEntities rest descriptionLower (scanKeywords entityName keywords descriptionLower entities)"

text \<open>The entities recorded by the two loops, before the default and the cap.\<close>

definition matchedEntities :: "string \<Rightarrow> string list" where
  "matchedEntities description = scanEntities entityKeywords (toLowerCase description) []"

text \<open>
  \<^verbatim>\<open>function extractEntitiesFromDescription(description)\<close>. On a value that is not a
  string, \<^verbatim>\<open>description.toLowerCase()\<close> raises.
\<close>

fun extractEntitiesFromDescription :: "jsval \<Rightarrow> error + string list" where
  "extractEntitiesFromDescription (JSString description) =
     (let entities = matchedEntities description;
          entities = (if length entities = 0 then entities @ [''item''] else entities)
      in Inr (take 3 entities))"
| "extractEntitiesFromDescription v = Inl TypeError"

text \<open>The vocabulary of the statements about the extractor: a keyword matches a
  description when its pattern is found in the lower-cased description.\<close>

definition keywordMatches :: "string \<Rightarrow> string \<Rightarrow> bool" where
  "keywordMatches keyword description = test (keywordPattern keyword) (toLowerCase description)"

definition noKeywordMatches :: "string \<Rightarrow> bool" where
  "noKeywordMatches description =
     list_all (\<lambda>(entityName, keywords).
        list_all (\<lambda>keyword. \<not> keywordMatches keyword description) keywords) entityKeywords"

definition earlierKeywords :: "string \<Rightarrow> string list" where
  "earlierKeywords entityName =
     concat (map snd (takeWhile (\<lambda>(name, keywords). name \<noteq> entityName) entityKeywords))"

section \<open>Generative Assist\<close>

text \<open>
  \<open>generateCodeWithAI\<close> reads its configuration from the environment and calls an
  external service. The environment is the record \<open>aiEnv\<close> (\<open>OPENAI_AVAILABLE\<close> is the
  module-level flag set when the client library could be loaded). The service is a
  parameter: a function from the request to either the error thrown inside the
  \<^verbatim>\<open>try\<close> block (building the client, the call itself, or reading
  \<^verbatim>\<open>response.choices[0].message.content\<close> of a malformed response) or that content.
  The request's constant temperature and the console output are not modelled.
\<close>

record aiEnv =
  OPENAI_AVAILABLE :: bool
  OPENAI_API_KEY :: "string option"
  OPENAI_ENDPOINT :: "string option"
  OPENAI_MODEL :: "string option"

record chatRequest =
  apiKey :: string
  baseURL :: "string option"
  model :: string
  systemContent :: string
  userContent :: string
  max_tokens :: nat

type_synonym chatService = "chatRequest \<Rightarrow> string + string"

definition systemPrompt :: string where
  "systemPrompt = ''You are an expert Angular developer. Generate clean, production-ready TypeScript/Angular code following best practices. Include proper typing, error handling, and documentation.''"

definition generateCodeWithAI ::
  "aiEnv \<Rightarrow> chatService \<Rightarrow> string \<Rightarrow> string option \<Rightarrow> nat \<Rightarrow> string option" where
  "generateCodeWithAI env service prompt modelArg maxTokens =
     (if \<not> OPENAI_AVAILABLE env then None
      else if orElse (OPENAI_API_KEY env) [] = [] then None
      else
        let defaultModel = orElse (OPENAI_MODEL env) ''gpt-4'';
            selectedModel = orElse modelArg defaultModel;
            endpoint = orElse (OPENAI_ENDPOINT env) []
        in case service \<lparr>apiKey = orElse (OPENAI_API_KEY env) [],
                          baseURL = (if endpoint \<noteq> [] then Some endpoint else None),
                          model = selectedModel,
                          systemContent = systemPrompt,
                          userContent = prompt,
                          max_tokens = maxTokens\<rparr> of
             Inl err \<Rightarrow> None
           | Inr content \<Rightarrow> Some (trim content))"

text \<open>
  \<^verbatim>\<open>aiCode.replace(/```typescript\n?/g, '').replace(/```\n?/g, '')\<close>: every occurrence of
  the fence, with the newline after it if there is one, is removed, from left to right.
  Both fences are non-empty; an empty fence is not a case of the source.
\<close>

definition dropNewline :: "string \<Rightarrow> string" where
  "dropNewline s = (case s of [] \<Rightarrow> [] | c # cs \<Rightarrow> if c = CHR 0x0A then cs else c # cs)"

function removeFence :: "string \<Rightarrow> string \<Rightarrow> string" where
  "removeFence fence [] = []"
| "removeFence fence (c # cs) =
     (if fence \<noteq> [] \<and> prefix fence (c # cs)
      then removeFence fence (dropNewline (drop (length fence) (c # cs)))
      else c # removeFence fence cs)"
  by pat_completeness auto
termination
proof (relation "measure (\<lambda>(fence, s). length s)")
  show "wf (measure (\<lambda>(fence, s). length s))" by simp
next
  fix fence :: string and c cs
  assume a: "fence \<noteq> [] \<and> prefix fence (c # cs)"
  have "length (dropNewline s) \<le> length s" for s
    by (cases s) (simp_all add: dropNewline_def)
  then have "length (dropNewline (drop (length fence) (c # cs))) \<le> length (drop (length fence) (c # cs))" .
  also from a have "\<dots> < length (c # cs)" by simp
  finally show "((fence, dropNewline (drop (length fence) (c # cs))), (fence, c # cs))
      \<in> measure (\<lambda>(fence, s). length s)" by simp
next
  fix fence :: string and c cs
  show "((fence, cs), (fence, c # cs)) \<in> measure (\<lambda>(fence, s). length s)" by simp
qed

definition cleanCode :: "string \<Rightarrow> string" where
  \<open>cleanCode aiCode = removeFence ''```'' (removeFence ''```typescript'' aiCode)\<close>

section \<open>Per-entity files of the SPA profile\<close>

text \<open>
  The files a generator writes are modelled as the list of its \<^verbatim>\<open>fs.writeFileSync\<close>
  calls, in order: the path and the content. \<^verbatim>\<open>path.join\<close> is applied to segments
  without empty, \<^verbatim>\<open>.\<close> or \<^verbatim>\<open>..\<close> parts only, where it joins them with a slash.
\<close>

type_synonym writes = "(string \<times> string) list"

definition pathJoin :: "string list \<Rightarrow> string" where
  "pathJoin segments = join ''/'' segments"

definition componentPrompt :: "string \<Rightarrow> string \<Rightarrow> string \<Rightarrow> string" where
  \<open>componentPrompt entityName entityClass description =
     ''Generate an Angular component for managing '' @ sq @ entityName @ sq @ '' entities in a '' @ description @ ''.\<newline>'' @
     ''\<newline>'' @
     ''Requirements:\<newline>'' @
     ''1. Component class name: '' @ entityClass @ ''ListComponent\<newline>'' @
     ''2. Use Angular 17+ patterns with standalone: false (module-based)\<newline>'' @
     ''3. Include TypeScript interface for '' @ entityClass @ '' with relevant properties based on context\<newline>'' @
     ''4. Include CRUD operations: list, create, update, delete\<newline>'' @
     ''5. Use reactive forms for create/edit\<newline>'' @
     ''6. Include error handling and loading states\<newline>'' @
     ''7. Use modern Angular patterns (signals, inject(), etc.)\<newline>'' @
     ''8. Include proper typing and documentation\<newline>'' @
     ''9. Return ONLY the TypeScript component code, no explanations\<newline>'' @
     ''\<newline>'' @
     ''Generate the component.ts file content:''\<close>

definition componentTemplate :: "string \<Rightarrow> string \<Rightarrow> string \<Rightarrow> string" where
  \<open>componentTemplate entityName entityClass entityPlural =
     ''import { Component, OnInit } from '@angular/core';\<newline>'' @
     ''import { '' @ entityClass @ ''Service } from '../../services/'' @ entityName @ ''.service';\<newline>'' @
     ''import { '' @ entityClass @ '' } from '../../../core/interfaces/'' @ entityName @ ''.interface';\<newline>'' @
     ''\<newline>'' @
     ''@Component({\<newline>'' @
     ''  selector: 'app-'' @ entityName @ ''-list',\<newline>'' @
     ''  templateUrl: './'' @ entityName @ ''-list.component.html',\<newline>'' @
     ''  styleUrls: ['./'' @ entityName @ ''-list.component.scss'],\<newline>'' @
     ''  standalone: false\<newline>'' @
     ''})\<newline>'' @
     ''export class '' @ entityClass @ ''ListComponent implements OnInit {\<newline>'' @
     ''  '' @ entityPlural @ '': '' @ entityClass @ ''[] = [];\<newline>'' @
     ''  loading = false;\<newline>'' @
     ''  error: string | null = null;\<newline>'' @
     ''\<newline>'' @
     ''  constructor(private '' @ entityName @ ''Service: '' @ entityClass @ ''Service) {}\<newline>'' @
     ''\<newline>'' @
     ''  ngOnInit(): void {\<newline>'' @
     ''    this.load'' @ entityClass @ ''s();\<newline>'' @
     ''  }\<newline>'' @
     ''\<newline>'' @
     ''  load'' @ entityClass @ ''s(): void {\<newline>'' @
     ''    this.loading = true;\<newline>'' @
     ''    this.'' @ entityName @ ''Service.getAll().subscribe({\<newline>'' @
     ''      next: (data) => {\<newline>'' @
     ''        this.'' @ entityPlural @ '' = data;\<newline>'' @
     ''        this.loading = false;\<newline>'' @
     ''      },\<newline>'' @
     ''      error: (err) => {\<newline>'' @
     ''        this.error = 'Failed to load '' @ entityPlural @ sq @ '';\<newline>'' @
     ''        this.loading = false;\<newline>'' @
     ''      }\<newline>'' @
     ''    });\<newline>'' @
     ''  }\<newline>'' @
     ''\<newline>'' @
     ''  delete'' @ entityClass @ ''(id: number): void {\<newline>'' @
     ''    if (confirm('Are you sure?')) {\<newline>'' @
     ''      this.'' @ entityName @ ''Service.delete(id).subscribe({\<newline>'' @
     ''        next: () => this.load'' @ entityClass @ ''s(),\<newline>'' @
     ''        error: (err) => this.error = 'Failed to delete '' @ entityName @ sq @ nl @
     ''      });\<newline>'' @
     ''    }\<newline>'' @
     ''  }\<newline>'' @
     ''}\<newline>''\<close>

text \<open>
  \<^verbatim>\<open>async function generateEntityComponent(entityName, description = '', useAI = true)\<close>:
  the generated text is used when the call returned a non-empty string, the template
  otherwise.
\<close>

definition generateEntityComponent ::
  "aiEnv \<Rightarrow> chatService \<Rightarrow> string \<Rightarrow> string \<Rightarrow> bool \<Rightarrow> string" where
  "generateEntityComponent env service entityName description useAI =
     (let entityClass = capitalize entityName;
          entityPlural = pluralize entityName;
          aiCode = (if useAI \<and> description \<noteq> []
                    then generateCodeWithAI env service
                           (componentPrompt entityName entityClass description) None 3000
                    else None)
      in if orElse aiCode [] \<noteq> [] then cleanCode (orElse aiCode [])
         else componentTemplate entityName entityClass entityPlural)"

definition servicePrompt :: "string \<Rightarrow> string \<Rightarrow> string \<Rightarrow> string" where
  \<open>servicePrompt entityName entityClass description =
     ''Generate an Angular service for managing '' @ sq @ entityName @ sq @ '' entities in a '' @ description @ ''.\<newline>'' @
     ''\<newline>'' @
     ''Requirements:\<newline>'' @
     ''1. Service class name: '' @ entityClass @ ''Service\<newline>'' @
     ''2. Use HttpClient for API calls\<newline>'' @
     ''3. Include methods: getAll(), getById(id), create(data), update(id, data), delete(id)\<newline>'' @
     ''4. Return Observables with proper typing\<newline>'' @
     ''5. Include error handling\<newline>'' @
     ''6. Use environment.apiUrl for base URL\<newline>'' @
     ''7. Include proper TypeScript interfaces\<newline>'' @
     ''8. Return ONLY the TypeScript service code, no explanations\<newline>'' @
     ''\<newline>'' @
     ''Generate the service.ts file content:''\<close>

definition serviceTemplate :: "string \<Rightarrow> string \<Rightarrow> string \<Rightarrow> string" where
  \<open>serviceTemplate entityName entityClass entityPlural =
     ''import { Injectable } from '@angular/core';\<newline>'' @
     ''import { HttpClient } from '@angular/common/http';\<newline>'' @
     ''import { Observable } from 'rxjs';\<newline>'' @
     ''import { environment } from '../../../environments/environment';\<newline>'' @
     ''import { '' @ entityClass @ '' } from '../../core/interfaces/'' @ entityName @ ''.interface';\<newline>'' @
     ''\<newline>'' @
     ''@Injectable({\<newline>'' @
     ''  providedIn: 'root'' @ sq @ nl @
     ''})\<newline>'' @
     ''export class '' @ entityClass @ ''Service {\<newline>'' @
     ''  private apiUrl = `${environment.apiUrl}/'' @ entityPlural @ ''`;\<newline>'' @
     ''\<newline>'' @
     ''  constructor(private http: HttpClient) {}\<newline>'' @
     ''\<newline>'' @
     ''  getAll(): Observable<'' @ entityClass @ ''[]> {\<newline>'' @
     ''    return this.http.get<'' @ entityClass @ ''[]>(this.apiUrl);\<newline>'' @
     ''  }\<newline>'' @
     ''\<newline>'' @
     ''  getById(id: number): Observable<'' @ entityClass @ ''> {\<newline>'' @
     ''    return this.http.get<'' @ entityClass @ ''>(`${this.apiUrl}/${id}`);\<newline>'' @
     ''  }\<newline>'' @
     ''\<newline>'' @
     ''  create(data: Partial<'' @ entityClass @ ''>): Observable<'' @ entityClass @ ''> {\<newline>'' @
     ''    return this.http.post<'' @ entityClass @ ''>(this.apiUrl, data);\<newline>'' @
     ''  }\<newline>'' @
     ''\<newline>'' @
     ''  update(id: number, data: Partial<'' @ entityClass @ ''>): Observable<'' @ entityClass @ ''> {\<newline>'' @
     ''    return this.http.put<'' @ entityClass @ ''>(`${this.apiUrl}/${id}`, data);\<newline>'' @
     ''  }\<newline>'' @
     ''\<newline>'' @
     ''  delete(id: number): Observable<void> {\<newline>'' @
     ''    return this.http.delete<void>(`${this.apiUrl}/${id}`);\<newline>'' @
     ''  }\<newline>'' @
     ''}\<newline>''\<close>

definition generateEntityService ::
  "aiEnv \<Rightarrow> chatService \<Rightarrow> string \<Rightarrow> string \<Rightarrow> bool \<Rightarrow> string" where
  "generateEntityService env service entityName description useAI =
     (let entityClass = capitalize entityName;
          entityPlural = pluralize entityName;
          aiCode = (if useAI \<and> description \<noteq> []
                    then generateCodeWithAI env service
                           (servicePrompt entityName entityClass description) None 2000
                    else None)
      in if orElse aiCode [] \<noteq> [] then cleanCode (orElse aiCode [])
         else serviceTemplate entityName entityClass entityPlural)"

definition componentHtml :: "string \<Rightarrow> string \<Rightarrow> string \<Rightarrow> string" where
  \<open>componentHtml entityName entityClass entityPlural =
     ''<div class="'' @ entityName @ ''-list">\<newline>'' @
     ''  <h2>'' @ entityClass @ '' Management</h2>\<newline>'' @
     ''  \<newline>'' @
     ''  <div *ngIf="loading" class="loading">Loading...</div>\<newline>'' @
     ''  <div *ngIf="error" class="error">{{ error }}</div>\<newline>'' @
     ''  \<newline>'' @
     ''  <div class="'' @ entityPlural @ ''-grid">\<newline>'' @
     ''    <div *ngFor="let '' @ entityName @ '' of '' @ entityPlural @ ''" class="'' @ entityName @ ''-card">\<newline>'' @
     ''      <h3>{{ '' @ entityName @ ''.name || '' @ entityName @ ''.title }}</h3>\<newline>'' @
     ''      <button (click)="delete'' @ entityClass @ ''('' @ entityName @ ''.id)">Delete</button>\<newline>'' @
     ''    </div>\<newline>'' @
     ''  </div>\<newline>'' @
     ''</div>\<newline>''\<close>

definition componentScss :: "string \<Rightarrow> string \<Rightarrow> string" where
  \<open>componentScss entityName entityPlural =
     ''.'' @ entityName @ ''-list {\<newline>'' @
     ''  padding: 20px;\<newline>'' @
     ''  \<newline>'' @
     ''  .'' @ entityPlural @ ''-grid {\<newline>'' @
     ''    display: grid;\<newline>'' @
     ''    grid-template-columns: repeat(auto-fill, minmax(300px, 1fr));\<newline>'' @
     ''    gap: 20px;\<newline>'' @
     ''    margin-top: 20px;\<newline>'' @
     ''  }\<newline>'' @
     ''  \<newline>'' @
     ''  .'' @ entityName @ ''-card {\<newline>'' @
     ''    border: 1px solid #ddd;\<newline>'' @
     ''    padding: 15px;\<newline>'' @
     ''    border-radius: 8px;\<newline>'' @
     ''  }\<newline>'' @
     ''}\<newline>''\<close>

definition interfaceCode :: "string \<Rightarrow> string" where
  \<open>interfaceCode entityClass =
     ''export interface '' @ entityClass @ '' {\<newline>'' @
     ''  id: number;\<newline>'' @
     ''  name: string;\<newline>'' @
     ''  createdAt?: Date;\<newline>'' @
     ''  updatedAt?: Date;\<newline>'' @
     ''}\<newline>''\<close>

definition moduleCode :: "string \<Rightarrow> string \<Rightarrow> string" where
  \<open>moduleCode entityName entityClass =
     ''import { NgModule } from '@angular/core';\<newline>'' @
     ''import { CommonModule } from '@angular/common';\<newline>'' @
     ''import { RouterModule, Routes } from '@angular/router';\<newline>'' @
     ''import { SharedModule } from '../../shared/shared.module';\<newline>'' @
     ''import { '' @ entityClass @ ''ListComponent } from './components/'' @ entityName @ ''-list.component';\<newline>'' @
     ''\<newline>'' @
     ''const routes: Routes = [\<newline>'' @
     ''  { path: '' @ sq @ sq @ '', component: '' @ entityClass @ ''ListComponent }\<newline>'' @
     ''];\<newline>'' @
     ''\<newline>'' @
     ''@NgModule({\<newline>'' @
     ''  declarations: ['' @ entityClass @ ''ListComponent],\<newline>'' @
     ''  imports: [\<newline>'' @
     ''    CommonModule,\<newline>'' @
     ''    SharedModule,\<newline>'' @
     ''    RouterModule.forChild(routes)\<newline>'' @
     ''  ]\<newline>'' @
     ''})\<newline>'' @
     ''export class '' @ entityClass @ ''Module { }\<newline>''\<close>

text \<open>
  \<^verbatim>\<open>async function generateEntityFeature(projectPath, entityName, description)\<close>. The
  description is the configuration's, which may be undefined; the default parameter
  value of the two generators then makes it the empty string.
\<close>

definition generateEntityFeature ::
  "aiEnv \<Rightarrow> chatService \<Rightarrow> string \<Rightarrow> string \<Rightarrow> string option \<Rightarrow> writes" where
  "generateEntityFeature env service projectPath entityName description =
     (let entityClass = capitalize entityName;
          entityPlural = pluralize entityName;
          featurePath = pathJoin [projectPath, ''src/app/features'', entityPlural];
          componentCode = generateEntityComponent env service entityName (orElse description []) True;
          serviceCode = generateEntityService env service entityName (orElse description []) True
      in [(pathJoin [featurePath, ''components'', entityName @ ''-list.component.ts''], componentCode),
          (pathJoin [featurePath, ''components'', entityName @ ''-list.component.html''],
             componentHtml entityName entityClass entityPlural),
          (pathJoin [featurePath, ''components'', entityName @ ''-list.component.scss''],
             componentScss entityName entityPlural),
          (pathJoin [featurePath, ''services'', entityName @ ''.service.ts''], serviceCode),
          (pathJoin [projectPath, ''src/app/core/interfaces'', entityName @ ''.interface.ts''],
             interfaceCode entityClass),
          (pathJoin [featurePath, entityName @ ''.module.ts''], moduleCode entityName entityClass)])"

section \<open>Request parser\<close>

text \<open>
  The configuration object. \<open>description\<close> and \<open>entities\<close> are properties the parser
  and the generator add later; until then they are undefined.
\<close>

record config =
  features :: "string list"
  styling :: string
  version :: string
  architecture :: string
  description :: "string option"
  entities :: "string list option"

text \<open>
  The four field patterns have the shape \<^verbatim>\<open>/### Heading\s*\n\s*(.+)/\<close>: the heading text,
  white space, a newline, white space, and a captured run of one or more code units
  other than line terminators. The functions below follow the backtracking order of the
  pattern: each \<^verbatim>\<open>\s*\<close> first takes as much white space as it can and gives code units
  back while the rest of the pattern fails; \<^verbatim>\<open>(.+)\<close> takes the rest of the line.
\<close>

definition dotPlus :: "string \<Rightarrow> string option" where
  "dotPlus s =
     (let captured = takeWhile (\<lambda>c. \<not> isLineTerminator c) s
      in if captured = [] then None else Some captured)"

fun spacesThenValue :: "string \<Rightarrow> string option" where
  "spacesThenValue [] = dotPlus []"
| "spacesThenValue (c # cs) =
     (if isSpace c
      then (case spacesThenValue cs of Some v \<Rightarrow> Some v | None \<Rightarrow> dotPlus (c # cs))
      else dotPlus (c # cs))"

fun spacesNewlineValue :: "string \<Rightarrow> string option" where
  "spacesNewlineValue [] = None"
| "spacesNewlineValue (c # cs) =
     (if isSpace c
      then (case spacesNewlineValue cs of
              Some v \<Rightarrow> Some v
            | None \<Rightarrow> if c = CHR 0x0A then spacesThenValue cs else None)
      else None)"

definition matchHeadingHere :: "string \<Rightarrow> string \<Rightarrow> string option" where
  "matchHeadingHere heading s =
     (if prefix heading s then spacesNewlineValue (drop (length heading) s) else None)"

text \<open>\<^verbatim>\<open>issueBody.match(/### Heading\s*\n\s*(.+)/)\<close>: the first capture group of the
  leftmost match, or \<open>None\<close> when the result is \<^verbatim>\<open>null\<close>.\<close>

fun matchHeading :: "string \<Rightarrow> string \<Rightarrow> string option" where
  "matchHeading heading [] = matchHeadingHere heading []"
| "matchHeading heading (c # cs) =
     (case matchHeadingHere heading (c # cs) of
        Some v \<Rightarrow> Some v
      | None \<Rightarrow> matchHeading heading cs)"

text \<open>One of the nine feature checks:
  \<^verbatim>\<open>if (issueBody.includes('- [X] Label') || issueBody.includes('- [x] Label')) config.features.push(name)\<close>.\<close>

definition checkFeature :: "string \<Rightarrow> string \<Rightarrow> string \<Rightarrow> config \<Rightarrow> config" where
  "checkFeature issueBody label name config =
     (if js_includes issueBody (''- [X] '' @ label) \<or> js_includes issueBody (''- [x] '' @ label)
      then config\<lparr>features := features config @ [name]\<rparr>
      else config)"

definition featureVocabulary :: "(string \<times> string) list" where
  "featureVocabulary =
     [(''Routing'', ''routing''), (''State Management'', ''ngrx''), (''HTTP Client'', ''http''),
      (''Forms'', ''forms''), (''Authentication'', ''auth''), (''Unit Tests'', ''tests''),
      (''E2E Tests'', ''e2e''), (''Docker'', ''docker''), (''PWA'', ''pwa'')]"

text \<open>\<^verbatim>\<open>function parseIssueBody(issueBody)\<close>. On a value that is not a string,
  \<^verbatim>\<open>issueBody.match\<close> raises.\<close>

fun parseIssueBody :: "jsval \<Rightarrow> error + config" where
  "parseIssueBody (JSString issueBody) =
     (let config = \<lparr>features = [], styling = ''CSS'', version = ''Angular 17 (Latest)'',
                     architecture = ''Standalone Components'', description = None,
                     entities = None\<rparr>;
          config = (case matchHeading ''### Angular Version'' issueBody of
                      Some v \<Rightarrow> config\<lparr>version := trim v\<rparr> | None \<Rightarrow> config);
          config = (case matchHeading ''### Styling Framework'' issueBody of
                      Some v \<Rightarrow> config\<lparr>styling := trim v\<rparr> | None \<Rightarrow> config);
          config = (case matchHeading ''### Project Structure'' issueBody of
                      Some v \<Rightarrow> config\<lparr>architecture := trim v\<rparr> | None \<Rightarrow> config);
          config = (case matchHeading ''### Project Description'' issueBody of
                      Some v \<Rightarrow> config\<lparr>description := Some (trim v)\<rparr> | None \<Rightarrow> config)
      in Inr (fold (\<lambda>(label, name). checkFeature issueBody label name) featureVocabulary config))"
| "parseIssueBody v = Inl TypeError"

text \<open>The strings whose presence in the request switches a feature on.\<close>

definition featureMarkers :: "string list" where
  "featureMarkers =
     concat (map (\<lambda>(label, name). [''- [X] '' @ label, ''- [x] '' @ label]) featureVocabulary)"

section \<open>Aggregation files of the SPA profile\<close>

text \<open>
  \<^verbatim>\<open>function createAppModule(projectPath, projectName, referenceImages)\<close> writes the root
  module, the root component and the routing module. The configuration is not among its
  parameters.
\<close>

definition appModuleTs :: string where
  \<open>appModuleTs =
     ''import { NgModule, CUSTOM_ELEMENTS_SCHEMA } from '@angular/core';\<newline>'' @
     ''import { BrowserModule } from '@angular/platform-browser';\<newline>'' @
     ''import { BrowserAnimationsModule } from '@angular/platform-browser/animations';\<newline>'' @
     ''import { provideHttpClient, withInterceptorsFromDi } from '@angular/common/http';\<newline>'' @
     ''\<newline>'' @
     ''import { AppRoutingModule } from './app-routing.module';\<newline>'' @
     ''import { AppComponent } from './app.component';\<newline>'' @
     ''import { CoreModule } from './core/core.module';\<newline>'' @
     ''import { SharedModule } from './shared/shared.module';\<newline>'' @
     ''import { LayoutModule } from './layout/layout.module';\<newline>'' @
     ''\<newline>'' @
     ''@NgModule({\<newline>'' @
     ''  declarations: [AppComponent],\<newline>'' @
     ''  imports: [\<newline>'' @
     ''    BrowserModule,\<newline>'' @
     ''    BrowserAnimationsModule,\<newline>'' @
     ''    AppRoutingModule,\<newline>'' @
     ''    CoreModule,\<newline>'' @
     ''    SharedModule,\<newline>'' @
     ''    LayoutModule\<newline>'' @
     ''  ],\<newline>'' @
     ''  providers: [provideHttpClient(withInterceptorsFromDi())],\<newline>'' @
     ''  bootstrap: [AppComponent],\<newline>'' @
     ''  schemas: [CUSTOM_ELEMENTS_SCHEMA]\<newline>'' @
     ''})\<newline>'' @
     ''export class AppModule { }\<newline>''\<close>

definition appComponentTs :: "string \<Rightarrow> string" where
  \<open>appComponentTs projectName =
     ''import { Component } from '@angular/core';\<newline>'' @
     ''\<newline>'' @
     ''@Component({\<newline>'' @
     ''  selector: 'app-root',\<newline>'' @
     ''  templateUrl: './app.component.html',\<newline>'' @
     ''  styleUrls: ['./app.component.scss'],\<newline>'' @
     ''  standalone: false\<newline>'' @
     ''})\<newline>'' @
     ''export class AppComponent {\<newline>'' @
     ''  title = '' @ sq @ projectName @ sq @ '';\<newline>'' @
     ''}\<newline>''\<close>

definition appComponentHtml :: string where
  \<open>appComponentHtml =
     ''<app-layout>\<newline>'' @
     ''  <router-outlet></router-outlet>\<newline>'' @
     ''</app-layout>\<newline>''\<close>

definition appComponentScss :: string where
  \<open>appComponentScss =
     ''// App component styles\<newline>''\<close>

definition appRoutingModule :: string where
  \<open>appRoutingModule =
     ''import { NgModule } from '@angular/core';\<newline>'' @
     ''import { RouterModule, Routes } from '@angular/router';\<newline>'' @
     ''\<newline>'' @
     ''const routes: Routes = [\<newline>'' @
     ''  {\<newline>'' @
     ''    path: '' @ sq @ sq @ '',\<newline>'' @
     ''    redirectTo: '/home',\<newline>'' @
     ''    pathMatch: 'full'' @ sq @ nl @
     ''  },\<newline>'' @
     ''  {\<newline>'' @
     ''    path: 'home',\<newline>'' @
     ''    loadChildren: () => import('./features/home/home.module').then(m => m.HomeModule)\<newline>'' @
     ''  }\<newline>'' @
     ''];\<newline>'' @
     ''\<newline>'' @
     ''@NgModule({\<newline>'' @
     ''  imports: [RouterModule.forRoot(routes)],\<newline>'' @
     ''  exports: [RouterModule]\<newline>'' @
     ''})\<newline>'' @
     ''export class AppRoutingModule { }\<newline>''\<close>

definition createAppModule :: "string \<Rightarrow> string \<Rightarrow> string list \<Rightarrow> writes" where
  "createAppModule projectPath projectName referenceImages =
     [(pathJoin [projectPath, ''src/app/app.module.ts''], appModuleTs),
      (pathJoin [projectPath, ''src/app/app.component.ts''], appComponentTs projectName),
      (pathJoin [projectPath, ''src/app/app.component.html''], appComponentHtml),
      (pathJoin [projectPath, ''src/app/app.component.scss''], appComponentScss),
      (pathJoin [projectPath, ''src/app/app-routing.module.ts''], appRoutingModule)]"

text \<open>
  \<^verbatim>\<open>function getDescriptionSummary(description, maxLength = 100)\<close>.
\<close>

definition getDescriptionSummary :: "string option \<Rightarrow> nat \<Rightarrow> string" where
  "getDescriptionSummary d maxLength =
     (if orElse d [] = [] then []
      else
        let firstSentence = takeWhile (\<lambda>c. c \<noteq> CHR ''.'') (orElse d [])
        in if length firstSentence \<le> maxLength then firstSentence @ ''.''
           else if length (orElse d []) \<le> maxLength then orElse d []
           else
             let truncated = take maxLength (orElse d [])
             in substring0 truncated (lastIndexOf truncated CHR '' '') @ ''...'')"

text \<open>\<^verbatim>\<open>path.basename\<close> of a path that does not end in a separator.\<close>

definition basename :: "string \<Rightarrow> string" where
  "basename p = rev (takeWhile (\<lambda>c. c \<noteq> CHR ''/'') (rev p))"

definition imageLine :: "string \<Rightarrow> string" where
  \<open>imageLine img = ''- `'' @ basename img @ ''` (copied to src/assets/images/)''\<close>

definition mkRefSection :: "string list \<Rightarrow> string" where
  \<open>mkRefSection referenceImages =
     (let imageLines = join nl (map imageLine referenceImages)
      in if length referenceImages > 0
         then ''\<newline>'' @
              ''\<newline>'' @
              ''## Reference Images\<newline>'' @
              ''\<newline>'' @
              ''This project includes UI reference images that guided the design:\<newline>'' @
              imageLines @ nl @
              ''\<newline>'' @
              ''The UI components were generated using **Komodo Components** to match these reference designs.\<newline>''
         else [])\<close>

text \<open>The line of the documentation file that names one detected entity.\<close>

definition entityLine :: "string \<Rightarrow> string" where
  \<open>entityLine entity =
     ''- **'' @ capitalize entity @ ''** - Feature module at `src/app/features/'' @ pluralize entity @ ''/`''\<close>

definition mkEntitiesSection :: "string list option \<Rightarrow> string" where
  "mkEntitiesSection es =
     (case es of
        None \<Rightarrow> []
      | Some xs \<Rightarrow>
          if length xs > 0
          then nl @ ''## Detected Entities'' @ nl @ nl @ join nl (map entityLine xs) @ nl
          else [])"

definition mkFeaturesSection :: "string list \<Rightarrow> string" where
  "mkFeaturesSection fs =
     (if length fs > 0 then join nl (map (\<lambda>f. ''- '' @ f) fs)
      else ''- Module-based architecture'' @ nl @ ''- Komodo UI components'' @ nl
           @ ''- SCSS styling'' @ nl @ ''- Routing'')"

definition readmeText :: "string \<Rightarrow> string \<Rightarrow> string \<Rightarrow> string \<Rightarrow> string \<Rightarrow> string \<Rightarrow> string" where
  \<open>readmeText projectName summary refSection entitiesSection featuresSection referenceNote =
     ''# '' @ projectName @ nl @
     ''\<newline>'' @
     summary @ nl @
     refSection @ entitiesSection @ nl @
     ''## Komodo Components\<newline>'' @
     ''\<newline>'' @
     ''This project uses **@business-app-systems/komodo-ui** components.\<newline>'' @
     ''\<newline>'' @
     ''**Komodo Component Library**: https://main--6871820252f4f69a29390192.chromatic.com/\<newline>'' @
     ''\<newline>'' @
     ''Available components include:\<newline>'' @
     ''- Accordion\<newline>'' @
     ''- Button\<newline>'' @
     ''- Card\<newline>'' @
     ''- Dialog\<newline>'' @
     ''- Form Controls\<newline>'' @
     ''- Navigation\<newline>'' @
     ''- Table\<newline>'' @
     ''- And many more...\<newline>'' @
     ''\<newline>'' @
     ''## Features\<newline>'' @
     ''\<newline>'' @
     featuresSection @ nl @
     ''\<newline>'' @
     ''## Prerequisites\<newline>'' @
     ''\<newline>'' @
     ''- Node.js 18+\<newline>'' @
     ''- npm 9+\<newline>'' @
     ''- Angular CLI 18+\<newline>'' @
     ''\<newline>'' @
     ''## Installation\<newline>'' @
     ''\<newline>'' @
     ''```bash\<newline>'' @
     ''npm install\<newline>'' @
     ''```\<newline>'' @
     ''\<newline>'' @
     ''## Development\<newline>'' @
     ''\<newline>'' @
     ''```bash\<newline>'' @
     ''npm start\<newline>'' @
     ''```\<newline>'' @
     ''\<newline>'' @
     ''Navigate to `http://localhost:4200/`\<newline>'' @
     ''\<newline>'' @
     ''## Build\<newline>'' @
     ''\<newline>'' @
     ''```bash\<newline>'' @
     ''# Production build\<newline>'' @
     ''npm run build:prod\<newline>'' @
     ''\<newline>'' @
     ''# Development build\<newline>'' @
     ''npm run build\<newline>'' @
     ''```\<newline>'' @
     ''\<newline>'' @
     ''## Project Structure\<newline>'' @
     ''\<newline>'' @
     ''- `src/app/core/` - Singleton services and core functionality\<newline>'' @
     ''- `src/app/shared/` - Reusable components, directives, pipes\<newline>'' @
     ''- `src/app/layout/` - Layout components (header, footer)\<newline>'' @
     ''- `src/app/features/` - Feature modules (lazy-loaded)\<newline>'' @
     ''- `src/assets/` - Static assets including reference images\<newline>'' @
     ''\<newline>'' @
     ''## Komodo Components Usage\<newline>'' @
     ''\<newline>'' @
     ''Import Komodo modules in your feature modules:\<newline>'' @
     ''\<newline>'' @
     ''```typescript\<newline>'' @
     ''import { KomodoButtonModule, KomodoCardModule } from '@business-app-systems/komodo-ui';\<newline>'' @
     ''\<newline>'' @
     ''@NgModule({\<newline>'' @
     ''  imports: [\<newline>'' @
     ''    KomodoButtonModule,\<newline>'' @
     ''    KomodoCardModule\<newline>'' @
     ''  ]\<newline>'' @
     ''})\<newline>'' @
     ''```\<newline>'' @
     ''\<newline>'' @
     ''Use in templates:\<newline>'' @
     ''\<newline>'' @
     ''```html\<newline>'' @
     ''<komodo-button>Click Me</komodo-button>\<newline>'' @
     ''<komodo-card>\<newline>'' @
     ''  <komodo-card-header>Title</komodo-card-header>\<newline>'' @
     ''  <komodo-card-content>Content here</komodo-card-content>\<newline>'' @
     ''</komodo-card>\<newline>'' @
     ''```\<newline>'' @
     ''\<newline>'' @
     ''## Generated by CodeGen Automator\<newline>'' @
     ''\<newline>'' @
     ''This project was automatically generated with:\<newline>'' @
     ''- Module-based architecture (NOT standalone)\<newline>'' @
     ''- Komodo UI component library\<newline>'' @
     ''- SCSS styling'' @ referenceNote @ nl\<close>

definition createReadme :: "string \<Rightarrow> string \<Rightarrow> config \<Rightarrow> string list \<Rightarrow> writes" where
  "createReadme projectPath projectName config referenceImages =
     [(pathJoin [projectPath, ''README.md''],
       readmeText projectName
         (orElse (Some (getDescriptionSummary (description config) 100))
            ''Angular application with Komodo UI components'')
         (mkRefSection referenceImages)
         (mkEntitiesSection (entities config))
         (mkFeaturesSection (features config))
         (if length referenceImages > 0 then nl @ ''- UI matching reference images'' else []))]"

text \<open>
  \<^verbatim>\<open>async function createConfigFiles(projectPath, config)\<close> writes three fixed files and
  then the feature of every entity of the configuration, in order.
\<close>

definition gitignore :: string where
  \<open>gitignore =
     ''# Dependencies\<newline>'' @
     ''node_modules/\<newline>'' @
     ''\<newline>'' @
     ''# Build outputs\<newline>'' @
     ''dist/\<newline>'' @
     ''.angular/\<newline>'' @
     ''\<newline>'' @
     ''# IDEs\<newline>'' @
     ''.vscode/\<newline>'' @
     ''.idea/\<newline>'' @
     ''*.swp\<newline>'' @
     ''*.swo\<newline>'' @
     ''\<newline>'' @
     ''# OS\<newline>'' @
     ''.DS_Store\<newline>'' @
     ''Thumbs.db\<newline>'' @
     ''\<newline>'' @
     ''# Testing\<newline>'' @
     ''coverage/\<newline>'' @
     ''\<newline>'' @
     ''# Environment\<newline>'' @
     ''.env\<newline>'' @
     ''.env.local\<newline>''\<close>

definition editorconfig :: string where
  \<open>editorconfig =
     ''root = true\<newline>'' @
     ''\<newline>'' @
     ''[*]\<newline>'' @
     ''charset = utf-8\<newline>'' @
     ''indent_style = space\<newline>'' @
     ''indent_size = 2\<newline>'' @
     ''insert_final_newline = true\<newline>'' @
     ''trim_trailing_whitespace = true\<newline>'' @
     ''\<newline>'' @
     ''[*.md]\<newline>'' @
     ''max_line_length = off\<newline>'' @
     ''trim_trailing_whitespace = false\<newline>''\<close>

definition npmrc :: string where
  \<open>npmrc =
     ''legacy-peer-deps=true\<newline>''\<close>

definition createConfigFiles :: "aiEnv \<Rightarrow> chatService \<Rightarrow> string \<Rightarrow> config \<Rightarrow> writes" where
  "createConfigFiles env service projectPath config =
     [(pathJoin [projectPath, ''.gitignore''], gitignore),
      (pathJoin [projectPath, ''.editorconfig''], editorconfig),
      (pathJoin [projectPath, ''.npmrc''], npmrc)]
     @ concat (map (\<lambda>entity. generateEntityFeature env service projectPath entity (description config))
                 (case entities config of None \<Rightarrow> [] | Some xs \<Rightarrow> xs))"

text \<open>The content a path holds after a list of writes: that of the last write to it.\<close>

definition written :: "writes \<Rightarrow> string \<Rightarrow> string option" where
  "written ws path = map_of (rev ws) path"

section \<open>Properties of the inflector\<close>

lemma endsWith_snoc [simp]: "endsWith (b @ [c]) [d] = (c = d)"
  by (auto simp add: endsWith_def)

lemma endsWith_Nil [simp]: "endsWith [] [d] = False"
  by (simp add: endsWith_def)

lemma sliceDropLast_snoc [simp]: "sliceDropLast (b @ [c]) = b"
  by (simp add: sliceDropLast_def)

lemma pluralize_y: "pluralize (b @ ''y'') = b @ ''ies''"
  by (simp add: pluralize_def)

lemma pluralize_s: "pluralize (b @ ''s'') = b @ ''s''"
  by (simp add: pluralize_def)

lemma pluralize_other:
  "c \<noteq> CHR ''y'' \<Longrightarrow> c \<noteq> CHR ''s'' \<Longrightarrow> pluralize (b @ [c]) = b @ [c] @ ''s''"
  by (simp add: pluralize_def)

text \<open>
  Claim C5. \<open>pluralize\<close> applies three rules in priority order: a trailing \<open>y\<close> is
  replaced by \<open>ies\<close>; otherwise a string ending in \<open>s\<close> is returned unchanged;
  otherwise \<open>s\<close> is appended. In particular \<open>category\<close> gives \<open>categories\<close>,
  \<open>inventory\<close> gives \<open>inventories\<close>, \<open>business\<close> stays \<open>business\<close> and
  \<open>user\<close> gives \<open>users\<close>.
\<close>

theorem pluralize_rules:
  "(endsWith x ''y'' \<longrightarrow> pluralize x = sliceDropLast x @ ''ies'')
   \<and> (\<not> endsWith x ''y'' \<and> endsWith x ''s'' \<longrightarrow> pluralize x = x)
   \<and> (\<not> endsWith x ''y'' \<and> \<not> endsWith x ''s'' \<longrightarrow> pluralize x = x @ ''s'')
   \<and> pluralize (b @ ''y'') = b @ ''ies''
   \<and> pluralize (b @ ''s'') = b @ ''s''
   \<and> pluralize ''category'' = ''categories''
   \<and> pluralize ''inventory'' = ''inventories''
   \<and> pluralize ''business'' = ''business''
   \<and> pluralize ''user'' = ''users''"
proof -
  have ex: "pluralize ''category'' = ''categories''" "pluralize ''inventory'' = ''inventories''"
    "pluralize ''business'' = ''business''" "pluralize ''user'' = ''users''"
    by (simp_all add: pluralize_def endsWith_def sliceDropLast_def suffix_to_prefix)
  show ?thesis
    using ex pluralize_y [of b] pluralize_s [of b] by (simp add: pluralize_def)
qed

theorem pluralize_rules_witness:
  "endsWith ''category'' ''y'' \<and> pluralize ''category'' = sliceDropLast ''category'' @ ''ies''
   \<and> \<not> endsWith ''business'' ''y'' \<and> endsWith ''business'' ''s''
   \<and> pluralize ''business'' = ''business''
   \<and> \<not> endsWith ''user'' ''y'' \<and> \<not> endsWith ''user'' ''s''
   \<and> pluralize ''user'' = ''user'' @ ''s''"
  using pluralize_rules [of "''category''" "[]"] pluralize_rules [of "''business''" "[]"]
    pluralize_rules [of "''user''" "[]"]
  by (simp add: endsWith_def suffix_to_prefix)

text \<open>
  Claim C6. \<open>pluralize\<close> is idempotent: for every string \<open>x\<close>, whether it ends in
  \<open>y\<close>, in \<open>s\<close> or in neither, \<open>pluralize (pluralize x) = pluralize x\<close>.
\<close>

theorem pluralize_idempotent: "pluralize (pluralize x) = pluralize x"
proof (cases x rule: rev_cases)
  case Nil
  then show ?thesis by (simp add: pluralize_def endsWith_def suffix_to_prefix)
next
  case (snoc b c)
  have ies: "pluralize (b @ ''ies'') = b @ ''ies''"
    using pluralize_s [of "b @ ''ie''"] by simp
  show ?thesis
  proof (cases "c = CHR ''y''")
    case True
    with snoc ies show ?thesis by (simp add: pluralize_y)
  next
    case False
    show ?thesis
    proof (cases "c = CHR ''s''")
      case True
      with snoc show ?thesis using pluralize_s [of b] by simp
    next
      case False
      with \<open>c \<noteq> CHR ''y''\<close> snoc show ?thesis
        using pluralize_other [of c b] pluralize_s [of "b @ [c]"] by simp
    qed
  qed
qed

theorem pluralize_idempotent_witness:
  "pluralize (pluralize ''category'') = ''categories''
   \<and> pluralize (pluralize ''business'') = ''business''
   \<and> pluralize (pluralize ''user'') = ''users''"
  using pluralize_idempotent [of "''category''"] pluralize_idempotent [of "''business''"]
    pluralize_idempotent [of "''user''"]
  by (simp add: pluralize_def endsWith_def sliceDropLast_def suffix_to_prefix)

section \<open>Properties of the entity extractor\<close>

subsection \<open>The two loops\<close>

lemma scanKeywords_cases:
  "scanKeywords e kws d ents = ents \<or> (e \<notin> set ents \<and> scanKeywords e kws d ents = ents @ [e])"
  by (induction kws) auto

lemma scanKeywords_none:
  "\<forall>k \<in> set kws. \<not> test (keywordPattern k) d \<Longrightarrow> scanKeywords e kws d ents = ents"
  by (induction kws) auto

lemma scanKeywords_some:
  "k \<in> set kws \<Longrightarrow> test (keywordPattern k) d \<Longrightarrow>
   scanKeywords e kws d ents = (if e \<in> set ents then ents else ents @ [e])"
  by (induction kws) auto

lemma scanEntities_none:
  "\<forall>(e, kws) \<in> set lexicon. \<forall>k \<in> set kws. \<not> test (keywordPattern k) d \<Longrightarrow>
   scanEntities lexicon d ents = ents"
proof (induction lexicon arbitrary: ents)
  case Nil
  then show ?case by simp
next
  case (Cons entry lexicon)
  obtain e kws where entry: "entry = (e, kws)" by (cases entry)
  from Cons.prems entry have "\<forall>k \<in> set kws. \<not> test (keywordPattern k) d" by auto
  then have "scanKeywords e kws d ents = ents" by (rule scanKeywords_none)
  moreover from Cons.prems
  have "\<forall>(e, kws) \<in> set lexicon. \<forall>k \<in> set kws. \<not> test (keywordPattern k) d" by auto
  ultimately show ?case using Cons.IH entry by simp
qed

lemma scanEntities_prefix: "prefix ents (scanEntities lexicon d ents)"
proof (induction lexicon arbitrary: ents)
  case Nil
  then show ?case by simp
next
  case (Cons entry lexicon)
  obtain e kws where entry: "entry = (e, kws)" by (cases entry)
  have "prefix ents (scanKeywords e kws d ents)"
    using scanKeywords_cases [of e kws d ents] by auto
  also have "prefix (scanKeywords e kws d ents) (scanEntities lexicon d (scanKeywords e kws d ents))"
    by (rule Cons.IH)
  finally show ?case using entry by simp
qed



lemma scanEntities_names:
  "set (scanEntities lexicon d ents) \<subseteq> set ents \<union> fst ` set lexicon"
proof (induction lexicon arbitrary: ents)
  case Nil
  then show ?case by simp
next
  case (Cons entry lexicon)
  obtain e kws where entry: "entry = (e, kws)" by (cases entry)
  have "set (scanKeywords e kws d ents) \<subseteq> set ents \<union> {e}"
    using scanKeywords_cases [of e kws d ents] by auto
  with Cons.IH [of "scanKeywords e kws d ents"] entry show ?case by auto
qed

lemma noKeywordMatches_iff:
  "noKeywordMatches d =
     (\<forall>(e, kws) \<in> set entityKeywords. \<forall>k \<in> set kws. \<not> test (keywordPattern k) (toLowerCase d))"
  by (auto simp: noKeywordMatches_def keywordMatches_def list_all_iff)

lemma extract_eq:
  "extractEntitiesFromDescription (JSString d) =
     Inr (take 3 (if matchedEntities d = [] then [''item''] else matchedEntities d))"
  by (simp add: Let_def)

lemma lexicon_head:
  "entityKeywords =
     (''user'', [''user'', ''account'', ''profile'', ''member''])
     # (''product'', [''product'', ''item'', ''goods'', ''merchandise''])
     # (''order'', [''order'', ''purchase'', ''transaction''])
     # drop 3 entityKeywords"
  by (simp add: entityKeywords_def)

lemma item_not_canonical: "''item'' \<notin> fst ` set entityKeywords"
  by (simp add: entityKeywords_def)

lemma matchedEntities_canonical: "set (matchedEntities d) \<subseteq> fst ` set entityKeywords"
  using scanEntities_names [of entityKeywords "toLowerCase d" "[]"]
  by (simp add: matchedEntities_def)

subsection \<open>The default entity\<close>

text \<open>
  Claim C1. For every description string in which no lexicon keyword matches (under the
  word-boundary matching with the optional \<open>s\<close> and the \<open>y\<close>/\<open>ies\<close> variants),
  \<open>extractEntitiesFromDescription\<close> returns exactly the one-element list \<open>[item]\<close>;
  and on every string it returns a list, it never raises.
\<close>

theorem extract_default:
  "(\<exists>es. extractEntitiesFromDescription (JSString d) = Inr es)
   \<and> (noKeywordMatches d \<longrightarrow> extractEntitiesFromDescription (JSString d) = Inr [''item''])"
proof -
  have "matchedEntities d = []" if "noKeywordMatches d"
    using that scanEntities_none [of entityKeywords "toLowerCase d" "[]"]
    by (simp add: matchedEntities_def noKeywordMatches_iff)
  then show ?thesis by (simp add: Let_def)
qed

theorem extract_default_witness:
  "noKeywordMatches ''Hello world''
   \<and> extractEntitiesFromDescription (JSString ''Hello world'') = Inr [''item'']"
proof -
  have h: "noKeywordMatches ''Hello world''" by code_simp
  with extract_default [of "''Hello world''"] show ?thesis by simp
qed

text \<open>
  Claim C2. For every description string, the list returned by
  \<open>extractEntitiesFromDescription\<close> has length at least 1 and at most 3.
\<close>

theorem extract_length:
  "\<exists>es. extractEntitiesFromDescription (JSString d) = Inr es \<and> 1 \<le> length es \<and> length es \<le> 3"
  by (cases "matchedEntities d") (simp_all add: Let_def)

theorem extract_length_witness:
  "extractEntitiesFromDescription (JSString ''Hello world'') = Inr [''item'']
   \<and> 1 \<le> length [''item''] \<and> length [''item''] \<le> (3::nat)"
proof -
  have r: "extractEntitiesFromDescription (JSString ''Hello world'') = Inr [''item'']"
    by code_simp
  from extract_length [of "''Hello world''"] r show ?thesis by auto
qed

subsection \<open>A keyword listed under two entities\<close>




subsection \<open>The blog description\<close>

text \<open>
  Claim C8. On the description \<open>A blog platform with posts, comments, and user profiles\<close>
  the extractor returns exactly \<open>user\<close>, \<open>post\<close>, \<open>comment\<close>, in the order of the
  lexicon (\<open>user\<close> first), not in the order of appearance in the text.
\<close>

theorem extract_blog:
  "extractEntitiesFromDescription
     (JSString ''A blog platform with posts, comments, and user profiles'')
   = Inr [''user'', ''post'', ''comment'']"
  by code_simp

subsection \<open>The keyword item\<close>

text \<open>
  Claim C10. The string \<open>item\<close> is a synonym keyword of the canonical entity \<open>product\<close>.
  For every description in which the standalone word \<open>item\<close> or \<open>items\<close> matches and no
  keyword of an earlier lexicon entry does, the returned list starts with \<open>product\<close> and
  does not contain \<open>item\<close>. The value \<open>item\<close> is returned only by the zero-match
  default: whenever it is in the returned list, no entity was recorded and the list is
  \<open>[item]\<close>.
\<close>

theorem extract_item_keyword:
  "map_of entityKeywords ''product'' = Some [''product'', ''item'', ''goods'', ''merchandise'']
   \<and> (keywordMatches ''item'' d
        \<and> list_all (\<lambda>k. \<not> keywordMatches k d) (earlierKeywords ''product'') \<longrightarrow>
        (\<exists>rest. extractEntitiesFromDescription (JSString d) = Inr (''product'' # rest)
           \<and> ''item'' \<notin> set (''product'' # rest)))
   \<and> (\<forall>es. extractEntitiesFromDescription (JSString d) = Inr es \<and> ''item'' \<in> set es \<longrightarrow>
        matchedEntities d = [] \<and> es = [''item''])"
proof -
  let ?dl = "toLowerCase d"
  have key: "map_of entityKeywords ''product'' = Some [''product'', ''item'', ''goods'', ''merchandise'']"
    by (simp add: entityKeywords_def)
  have no_item: "''item'' \<notin> set (matchedEntities d)"
    using matchedEntities_canonical [of d] item_not_canonical by auto
  have first: "\<exists>rest. extractEntitiesFromDescription (JSString d) = Inr (''product'' # rest)
           \<and> ''item'' \<notin> set (''product'' # rest)"
    if m: "keywordMatches ''item'' d"
      and n: "list_all (\<lambda>k. \<not> keywordMatches k d) (earlierKeywords ''product'')"
  proof -
    have "earlierKeywords ''product'' = [''user'', ''account'', ''profile'', ''member'']"
      by (simp add: earlierKeywords_def entityKeywords_def)
    with n have "\<forall>k \<in> set [''user'', ''account'', ''profile'', ''member'']. \<not> test (keywordPattern k) ?dl"
      by (simp add: keywordMatches_def)
    then have a1: "scanKeywords ''user'' [''user'', ''account'', ''profile'', ''member''] ?dl [] = []"
      by (rule scanKeywords_none)
    from m have "test (keywordPattern ''item'') ?dl" by (simp add: keywordMatches_def)
    then have a2: "scanKeywords ''product'' [''product'', ''item'', ''goods'', ''merchandise''] ?dl []
        = [''product'']"
      by (subst scanKeywords_some [of "''item''"]) simp_all
    define a3 where
      "a3 = scanKeywords ''order'' [''order'', ''purchase'', ''transaction''] ?dl [''product'']"
    have "prefix [''product''] a3"
      using scanKeywords_cases [of "''order''" _ ?dl "[''product'']"] by (auto simp: a3_def)
    moreover have "matchedEntities d = scanEntities (drop 3 entityKeywords) ?dl a3"
      unfolding matchedEntities_def a3_def
      by (subst lexicon_head) (simp only: scanEntities.simps a1 a2)
    moreover have "prefix a3 (scanEntities (drop 3 entityKeywords) ?dl a3)"
      by (rule scanEntities_prefix)
    ultimately have "prefix [''product''] (matchedEntities d)"
      by (metis prefix_order.trans)
    then obtain ys where ys: "matchedEntities d = ''product'' # ys"
      by (auto simp: prefix_def)
    with no_item have "''item'' \<notin> set ys" by simp
    then have "''item'' \<notin> set (take 2 ys)" by (auto dest: in_set_takeD)
    with ys show ?thesis by (simp add: Let_def)
  qed
  have only_default: "matchedEntities d = [] \<and> es = [''item'']"
    if r: "extractEntitiesFromDescription (JSString d) = Inr es" and i: "''item'' \<in> set es" for es
  proof (cases "matchedEntities d = []")
    case True
    with r show ?thesis by (simp add: Let_def)
  next
    case False
    with r have "es = take 3 (matchedEntities d)" by (simp add: Let_def)
    with i have "''item'' \<in> set (matchedEntities d)" by (auto dest: in_set_takeD)
    with no_item show ?thesis by simp
  qed
  from key first only_default show ?thesis by blast
qed

theorem extract_item_keyword_witness:
  "keywordMatches ''item'' ''Sell ITEMS online''
   \<and> list_all (\<lambda>k. \<not> keywordMatches k ''Sell ITEMS online'') (earlierKeywords ''product'')
   \<and> (\<exists>rest. extractEntitiesFromDescription (JSString ''Sell ITEMS online'')
                = Inr (''product'' # rest) \<and> ''item'' \<notin> set (''product'' # rest))
   \<and> extractEntitiesFromDescription (JSString ''itemized'') = Inr [''item'']
   \<and> matchedEntities ''itemized'' = []"
proof -
  have m: "keywordMatches ''item'' ''Sell ITEMS online''" by code_simp
  have n: "list_all (\<lambda>k. \<not> keywordMatches k ''Sell ITEMS online'') (earlierKeywords ''product'')"
    by code_simp
  have z: "extractEntitiesFromDescription (JSString ''itemized'') = Inr [''item'']"
    by code_simp
  have i: "''item'' \<in> set [''item'']" by simp
  from m n extract_item_keyword [of "''Sell ITEMS online''"]
  have first: "\<exists>rest. extractEntitiesFromDescription (JSString ''Sell ITEMS online'')
                = Inr (''product'' # rest) \<and> ''item'' \<notin> set (''product'' # rest)"
    by blast
  from z i extract_item_keyword [of "''itemized''"]
  have "matchedEntities ''itemized'' = []" by blast
  with m n first z show ?thesis by blast
qed

end
